theory Spec2Isabelle
  imports Main "HOL-Library.AList"
begin

section \<open>Response records\<close>

text \<open>
  Every response of the debugger and every record of the formatters is a Python dict that
  is later serialised as JSON. A dict keeps its keys in insertion order, and assigning to
  a key that is already there keeps the key's position, which is what
  \<^const>\<open>AList.update\<close> does on an association list.
\<close>

datatype json =
    JNull
  | JBool bool
  | JInt int
  | JStr string
  | JList "json list"
  | JObj "(string \<times> json) list"

type_synonym jrecord = "(string \<times> json) list"

text \<open>\<open>str(n)\<close> of a Python int: the decimal digits, with a sign.\<close>

fun str_nat :: "nat \<Rightarrow> string" where
  "str_nat n = (if n < 10 then [''0123456789'' ! n]
                else str_nat (n div 10) @ [''0123456789'' ! (n mod 10)])"

declare str_nat.simps [simp del]

definition str_int :: "int \<Rightarrow> string" where
  "str_int i = (if i < 0 then ''-'' @ str_nat (nat (- i)) else str_nat (nat i))"

definition str_bool :: "bool \<Rightarrow> string" where
  "str_bool b = (if b then ''True'' else ''False'')"

text \<open>The slice \<open>xs[:n]\<close>; a negative \<open>n\<close> counts from the end.\<close>

definition py_prefix :: "int \<Rightarrow> 'a list \<Rightarrow> 'a list" where
  "py_prefix n xs = (if 0 \<le> n then take (nat n) xs else take (nat (int (length xs) + n)) xs)"

section \<open>The values of the target program\<close>

text \<open>
  Python values are objects with an identity (\<open>id(obj)\<close>); a collection holds the
  identities of its elements, so a value may contain itself. The heap maps every identity
  to its object. Texts that the runtime computes (\<open>repr\<close>, \<open>str\<close> of a float or of a
  dict key) are carried by the object. A dict and a set list their entries in iteration
  order.
\<close>

type_synonym addr = nat

datatype float_kind = Finite | Infinity | NaN

record pykey =
  key_str :: string
  key_repr :: string

datatype attr_result =
    Attr addr bool
  | AttrRaises string

record pyinstance =
  cls_name :: string
  cls_module :: string
  repr_text :: "string option"
  dict_keys :: "string list option"
  slot_names :: "string list option"
  getattr_result :: "string \<Rightarrow> attr_result"
  dir_names :: "string list"
  len_result :: "int option"

datatype pyobj =
    PNone
  | PBool bool
  | PInt int
  | PFloat string float_kind
  | PComplex string
  | PStr nat string
  | PBytes nat string
  | PList "addr list"
  | PTuple "addr list"
  | PDict "(pykey \<times> addr) list"
  | PSet "addr list"
  | PObject pyinstance

type_synonym heap = "addr \<Rightarrow> pyobj"

text \<open>\<open>type(obj).__name__\<close>.\<close>

fun type_name_of :: "pyobj \<Rightarrow> string" where
  "type_name_of PNone = ''NoneType''"
| "type_name_of (PBool _) = ''bool''"
| "type_name_of (PInt _) = ''int''"
| "type_name_of (PFloat _ _) = ''float''"
| "type_name_of (PComplex _) = ''complex''"
| "type_name_of (PStr _ _) = ''str''"
| "type_name_of (PBytes _ _) = ''bytes''"
| "type_name_of (PList _) = ''list''"
| "type_name_of (PTuple _) = ''tuple''"
| "type_name_of (PDict _) = ''dict''"
| "type_name_of (PSet _) = ''set''"
| "type_name_of (PObject c) = cls_name c"

text \<open>\<open>repr(obj)\<close> as the fall-through branches call it; \<open>None\<close> when it raises.\<close>

fun repr_of :: "pyobj \<Rightarrow> string option" where
  "repr_of (PObject c) = repr_text c"
| "repr_of (PComplex txt) = Some txt"
| "repr_of _ = None"

section \<open>The value formatter of the debugger (debugger.py)\<close>

definition MAX_VALUE_LENGTH :: int where
  "MAX_VALUE_LENGTH = 1000"

definition MAX_COLLECTION_ITEMS :: nat where
  "MAX_COLLECTION_ITEMS = 50"

definition MAX_STACK_DEPTH :: nat where
  "MAX_STACK_DEPTH = 50"

definition truncate_value :: "string \<Rightarrow> int \<Rightarrow> string" where
  "truncate_value v max_length =
     (if int (length v) > max_length then py_prefix (max_length - 3) v @ ''...'' else v)"

definition with_items :: "string \<Rightarrow> nat \<Rightarrow> string \<Rightarrow> string" where
  "with_items type_name n unit = ''<'' @ type_name @ '' with '' @ str_nat n @ '' '' @ unit @ ''>''"

definition more_entry :: "nat \<Rightarrow> string \<Rightarrow> jrecord" where
  "more_entry n unit =
     [(''type'', JStr ''...''), (''value'', JStr (''... ('' @ str_nat n @ '' more '' @ unit @ '')''))]"

text \<open>
  \<open>format_value(obj, max_depth, current_depth, seen)\<close>. The loops over a collection
  format the first \<open>MAX_COLLECTION_ITEMS\<close> elements and then, when an element is left,
  append one entry counting the rest. Each recursive call receives \<open>seen.copy()\<close>
  taken after \<open>seen.add(obj_id)\<close>, so a callee never changes the caller's set.
\<close>

function format_value :: "heap \<Rightarrow> addr \<Rightarrow> int \<Rightarrow> int \<Rightarrow> addr set \<Rightarrow> jrecord" where
  "format_value h obj max_depth current_depth seen =
     (let type_name = type_name_of (h obj) in
      if obj \<in> seen \<and> current_depth > 0
      then [(''type'', JStr type_name), (''value'', JStr ''<circular reference>'')]
      else (case h obj of
          PNone \<Rightarrow> [(''type'', JStr ''NoneType''), (''value'', JStr ''None'')]
        | PBool b \<Rightarrow> [(''type'', JStr ''bool''), (''value'', JStr (str_bool b))]
        | PInt i \<Rightarrow> [(''type'', JStr type_name), (''value'', JStr (str_int i))]
        | PFloat txt k \<Rightarrow> [(''type'', JStr type_name), (''value'', JStr txt)]
        | PStr n r \<Rightarrow> [(''type'', JStr ''str''), (''value'', JStr (truncate_value r MAX_VALUE_LENGTH))]
        | PBytes n r \<Rightarrow> [(''type'', JStr ''bytes''), (''value'', JStr (truncate_value r MAX_VALUE_LENGTH))]
        | PList xs \<Rightarrow>
            (if current_depth \<ge> max_depth
             then [(''type'', JStr type_name), (''value'', JStr (with_items type_name (length xs) ''items''))]
             else [(''type'', JStr type_name),
                   (''value'', JStr (with_items type_name (length xs) ''items'')),
                   (''items'', JList
                      (map (\<lambda>item. JObj (format_value h item max_depth (current_depth + 1) (insert obj seen)))
                           (take MAX_COLLECTION_ITEMS xs)
                       @ (if length xs > MAX_COLLECTION_ITEMS
                          then [JObj (more_entry (length xs - MAX_COLLECTION_ITEMS) ''items'')] else [])))])
        | PTuple xs \<Rightarrow>
            (if current_depth \<ge> max_depth
             then [(''type'', JStr type_name), (''value'', JStr (with_items type_name (length xs) ''items''))]
             else [(''type'', JStr type_name),
                   (''value'', JStr (with_items type_name (length xs) ''items'')),
                   (''items'', JList
                      (map (\<lambda>item. JObj (format_value h item max_depth (current_depth + 1) (insert obj seen)))
                           (take MAX_COLLECTION_ITEMS xs)
                       @ (if length xs > MAX_COLLECTION_ITEMS
                          then [JObj (more_entry (length xs - MAX_COLLECTION_ITEMS) ''items'')] else [])))])
        | PDict kvs \<Rightarrow>
            (if current_depth \<ge> max_depth
             then [(''type'', JStr ''dict''), (''value'', JStr (with_items ''dict'' (length kvs) ''keys''))]
             else [(''type'', JStr ''dict''),
                   (''value'', JStr (with_items ''dict'' (length kvs) ''keys'')),
                   (''items'', JObj
                      ((if length kvs > MAX_COLLECTION_ITEMS
                        then AList.update ''...'' (JObj (more_entry (length kvs - MAX_COLLECTION_ITEMS) ''keys''))
                        else id)
                       (fold (\<lambda>kv items. AList.update (truncate_value (key_str (fst kv)) 100)
                                 (JObj (format_value h (snd kv) max_depth (current_depth + 1) (insert obj seen)))
                                 items)
                             (take MAX_COLLECTION_ITEMS kvs) [])))])
        | PSet xs \<Rightarrow>
            (if current_depth \<ge> max_depth
             then [(''type'', JStr ''set''), (''value'', JStr (with_items ''set'' (length xs) ''items''))]
             else [(''type'', JStr ''set''),
                   (''value'', JStr (with_items ''set'' (length xs) ''items'')),
                   (''items'', JList
                      (map (\<lambda>item. JObj (format_value h item max_depth (current_depth + 1) (insert obj seen)))
                           (take MAX_COLLECTION_ITEMS xs)
                       @ (if length xs > MAX_COLLECTION_ITEMS
                          then [JObj (more_entry (length xs - MAX_COLLECTION_ITEMS) ''items'')] else [])))])
        | other \<Rightarrow>
            (let value_str = (case repr_of other of Some r \<Rightarrow> r
                              | None \<Rightarrow> ''<'' @ type_name @ '' object>'')
             in [(''type'', JStr type_name), (''value'', JStr (truncate_value value_str MAX_VALUE_LENGTH))])))"
  by pat_completeness auto
termination
  by (relation "measure (\<lambda>(h, obj, max_depth, current_depth, seen). nat (max_depth - current_depth))") auto

declare format_value.simps [simp del]

text \<open>\<open>format_variables\<close>: the bindings of a frame, without the dunder names.\<close>

definition is_dunder :: "string \<Rightarrow> bool" where
  "is_dunder name = (take 2 name = ''__'' \<and> take 2 (rev name) = ''__'')"

definition format_variables :: "heap \<Rightarrow> (string \<times> addr) list \<Rightarrow> int \<Rightarrow> jrecord" where
  "format_variables h variables max_depth =
     fold (\<lambda>(name, v) result.
             if is_dunder name then result
             else AList.update name (JObj (format_value h v max_depth 0 {})) result)
          variables []"

section \<open>The deep inspector (inspector.py)\<close>

definition MAX_STRING_LENGTH :: int where
  "MAX_STRING_LENGTH = 200"

definition truncate_str :: "string \<Rightarrow> int \<Rightarrow> string" where
  "truncate_str v max_length =
     (if int (length v) > max_length then py_prefix (max_length - 3) v @ ''...'' else v)"

text \<open>
  An \<open>ObjectInspector\<close> holds \<open>max_depth\<close> and \<open>max_items\<close>; its set \<open>_seen\<close> is
  shared by all calls and is threaded through them here: every method takes the set and
  returns it with its record.
\<close>

record inspector =
  self_max_depth :: int
  self_max_items :: int

definition more_truncated :: "int \<Rightarrow> string \<Rightarrow> jrecord" where
  "more_truncated n unit =
     [(''type'', JStr ''...''), (''value'', JStr (''... ('' @ str_int n @ '' more '' @ unit @ '')'')),
      (''truncated'', JBool True)]"

text \<open>\<open>str(obj)\<close> of an int, a float or a complex number.\<close>

fun number_str :: "pyobj \<Rightarrow> string" where
  "number_str (PInt i) = str_int i"
| "number_str (PFloat txt k) = txt"
| "number_str (PComplex txt) = txt"
| "number_str _ = []"

definition inspect_number :: "pyobj \<Rightarrow> jrecord" where
  "inspect_number obj =
     [(''type'', JStr (type_name_of obj)), (''value'', JStr (number_str obj))]
     @ (case obj of
          PFloat txt k \<Rightarrow>
            (if k = Infinity then [(''special'', JStr ''infinity'')]
             else if k = NaN then [(''special'', JStr ''nan'')] else [])
        | _ \<Rightarrow> [])"

definition inspect_string :: "nat \<Rightarrow> string \<Rightarrow> jrecord" where
  "inspect_string n r =
     [(''type'', JStr ''str''), (''length'', JInt (int n)), (''value'', JStr (truncate_str r MAX_STRING_LENGTH))]
     @ (if int n > MAX_STRING_LENGTH then [(''truncated'', JBool True), (''full_length'', JInt (int n))] else [])"

definition inspect_bytes :: "nat \<Rightarrow> string \<Rightarrow> jrecord" where
  "inspect_bytes n r =
     [(''type'', JStr ''bytes''), (''length'', JInt (int n)), (''value'', JStr (truncate_str r MAX_STRING_LENGTH))]
     @ (if int n > MAX_STRING_LENGTH then [(''truncated'', JBool True)] else [])"

text \<open>
  The methods that recurse receive \<open>self.inspect(\<cdot>, depth + 1)\<close> as the argument
  \<open>insp\<close>. The loop of \<open>_inspect_sequence\<close> and \<open>_inspect_set\<close> over
  \<open>enumerate(obj)\<close>, with the index \<open>i\<close> and the list \<open>items\<close> built so far:
\<close>

fun items_loop :: "(addr \<Rightarrow> addr set \<Rightarrow> jrecord \<times> addr set) \<Rightarrow> int \<Rightarrow> nat \<Rightarrow> nat \<Rightarrow> addr list
    \<Rightarrow> json list \<Rightarrow> addr set \<Rightarrow> json list \<times> addr set" where
  "items_loop insp max_items len i [] items seen = (items, seen)"
| "items_loop insp max_items len i (item # rest) items seen =
     (if int i \<ge> max_items
      then (items @ [JObj (more_truncated (int len - int i) ''items'')], seen)
      else (case insp item seen of
              (r, seen') \<Rightarrow> items_loop insp max_items len (i + 1) rest (items @ [JObj r]) seen'))"

definition inspect_sequence :: "(addr \<Rightarrow> addr set \<Rightarrow> jrecord \<times> addr set) \<Rightarrow> inspector \<Rightarrow> string
    \<Rightarrow> addr list \<Rightarrow> addr set \<Rightarrow> jrecord \<times> addr set" where
  "inspect_sequence insp self type_name xs seen =
     (let result = [(''type'', JStr type_name), (''length'', JInt (int (length xs))),
                    (''value'', JStr (with_items type_name (length xs) ''items''))]
      in if length xs = 0 then (result @ [(''items'', JList [])], seen)
         else (case items_loop insp (self_max_items self) (length xs) 0 xs [] seen of
                 (items, seen') \<Rightarrow>
                   (result @ [(''items'', JList items)]
                    @ (if int (length xs) > self_max_items self then [(''truncated'', JBool True)] else []),
                    seen')))"

definition inspect_set :: "(addr \<Rightarrow> addr set \<Rightarrow> jrecord \<times> addr set) \<Rightarrow> inspector
    \<Rightarrow> addr list \<Rightarrow> addr set \<Rightarrow> jrecord \<times> addr set" where
  "inspect_set insp self xs seen =
     (let result = [(''type'', JStr ''set''), (''length'', JInt (int (length xs))),
                    (''value'', JStr (with_items ''set'' (length xs) ''items''))]
      in if length xs = 0 then (result @ [(''items'', JList [])], seen)
         else (case items_loop insp (self_max_items self) (length xs) 0 xs [] seen of
                 (items, seen') \<Rightarrow>
                   (result @ [(''items'', JList items)]
                    @ (if int (length xs) > self_max_items self then [(''truncated'', JBool True)] else []),
                    seen')))"

text \<open>The loop of \<open>_inspect_dict\<close> over \<open>enumerate(obj.items())\<close>.\<close>

fun dict_loop :: "(addr \<Rightarrow> addr set \<Rightarrow> jrecord \<times> addr set) \<Rightarrow> int \<Rightarrow> nat \<Rightarrow> nat \<Rightarrow> (pykey \<times> addr) list
    \<Rightarrow> jrecord \<Rightarrow> addr set \<Rightarrow> jrecord \<times> addr set" where
  "dict_loop insp max_items len i [] items seen = (items, seen)"
| "dict_loop insp max_items len i (kv # rest) items seen =
     (if int i \<ge> max_items
      then (AList.update ''...'' (JObj (more_truncated (int len - int i) ''keys'')) items, seen)
      else (case insp (snd kv) seen of
              (r, seen') \<Rightarrow>
                dict_loop insp max_items len (i + 1) rest
                  (AList.update (truncate_str (key_repr (fst kv)) 100) (JObj r) items) seen'))"

definition inspect_dict :: "(addr \<Rightarrow> addr set \<Rightarrow> jrecord \<times> addr set) \<Rightarrow> inspector
    \<Rightarrow> (pykey \<times> addr) list \<Rightarrow> addr set \<Rightarrow> jrecord \<times> addr set" where
  "inspect_dict insp self kvs seen =
     (let result = [(''type'', JStr ''dict''), (''length'', JInt (int (length kvs))),
                    (''value'', JStr (with_items ''dict'' (length kvs) ''keys''))]
      in if length kvs = 0 then (result @ [(''items'', JObj [])], seen)
         else (case dict_loop insp (self_max_items self) (length kvs) 0 kvs [] seen of
                 (items, seen') \<Rightarrow>
                   (result @ [(''items'', JObj items)]
                    @ (if int (length kvs) > self_max_items self then [(''truncated'', JBool True)] else []),
                    seen')))"

text \<open>
  \<open>_inspect_object\<close>: the loop over \<open>attr_names[:self.max_items]\<close>, then the names of
  the public callables of \<open>dir(obj)\<close>.
\<close>

definition is_private :: "string \<Rightarrow> bool" where
  "is_private name = (take 1 name = ''_'')"

fun attrs_loop :: "(addr \<Rightarrow> addr set \<Rightarrow> jrecord \<times> addr set) \<Rightarrow> (string \<Rightarrow> attr_result) \<Rightarrow> string list
    \<Rightarrow> jrecord \<Rightarrow> addr set \<Rightarrow> jrecord \<times> addr set" where
  "attrs_loop insp getattr [] attributes seen = (attributes, seen)"
| "attrs_loop insp getattr (name # rest) attributes seen =
     (if is_private name then attrs_loop insp getattr rest attributes seen
      else (case getattr name of
              AttrRaises msg \<Rightarrow>
                attrs_loop insp getattr rest
                  (AList.update name (JObj [(''type'', JStr ''error''), (''value'', JStr msg)]) attributes) seen
            | Attr val is_callable \<Rightarrow>
                (if is_callable then attrs_loop insp getattr rest attributes seen
                 else (case insp val seen of
                         (r, seen') \<Rightarrow>
                           attrs_loop insp getattr rest (AList.update name (JObj r) attributes) seen'))))"

definition public_methods :: "pyinstance \<Rightarrow> string list" where
  "public_methods c =
     filter (\<lambda>name. \<not> is_private name \<and>
                     (case getattr_result c name of Attr val is_callable \<Rightarrow> is_callable
                      | AttrRaises msg \<Rightarrow> False))
            (dir_names c)"

definition repr_or_default :: "pyinstance \<Rightarrow> string" where
  "repr_or_default c =
     (case repr_text c of Some r \<Rightarrow> truncate_str r MAX_VALUE_LENGTH
      | None \<Rightarrow> ''<'' @ cls_name c @ '' object>'')"

definition inspect_object :: "(addr \<Rightarrow> addr set \<Rightarrow> jrecord \<times> addr set) \<Rightarrow> inspector
    \<Rightarrow> pyinstance \<Rightarrow> addr set \<Rightarrow> jrecord \<times> addr set" where
  "inspect_object insp self c seen =
     (let result = [(''type'', JStr (cls_name c)), (''module'', JStr (cls_module c)),
                    (''value'', JStr (repr_or_default c))];
          attr_names = (case dict_keys c of Some ks \<Rightarrow> ks | None \<Rightarrow> [])
                       @ (case slot_names c of Some ss \<Rightarrow> ss | None \<Rightarrow> []);
          methods = public_methods c
      in case attrs_loop insp (getattr_result c) (py_prefix (self_max_items self) attr_names) [] seen of
           (attributes, seen') \<Rightarrow>
             (result
              @ (if attributes \<noteq> [] then [(''attributes'', JObj attributes)] else [])
              @ (if int (length attr_names) > self_max_items self
                 then [(''attributes_truncated'', JBool True)] else [])
              @ (if methods \<noteq> []
                 then [(''methods'', JList (map JStr (take 20 methods)))]
                      @ (if length methods > 20 then [(''methods_truncated'', JBool True)] else [])
                 else []),
              seen'))"

definition inspect_generic :: "pyinstance \<Rightarrow> jrecord" where
  "inspect_generic c =
     [(''type'', JStr (cls_name c)), (''module'', JStr (cls_module c)),
      (''value'', JStr (repr_or_default c))]
     @ (case len_result c of Some n \<Rightarrow> [(''length'', JInt n)] | None \<Rightarrow> [])"

definition is_dataframe :: "pyinstance \<Rightarrow> bool" where
  "is_dataframe c = (cls_name c = ''DataFrame'' \<and> take 6 (cls_module c) = ''pandas'')"

definition is_series :: "pyinstance \<Rightarrow> bool" where
  "is_series c = (cls_name c = ''Series'' \<and> take 6 (cls_module c) = ''pandas'')"

definition is_ndarray :: "pyinstance \<Rightarrow> bool" where
  "is_ndarray c = (cls_name c = ''ndarray'' \<and> cls_module c = ''numpy'')"

lemma items_loop_cong [fundef_cong]:
  assumes "\<And>x s. x \<in> set xs \<Longrightarrow> f x s = g x s"
  shows "items_loop f m len i xs items seen = items_loop g m len i xs items seen"
  using assms by (induction xs arbitrary: i items seen) (auto split: prod.splits)

lemma dict_loop_cong [fundef_cong]:
  assumes "\<And>x s. x \<in> snd ` set kvs \<Longrightarrow> f x s = g x s"
  shows "dict_loop f m len i kvs items seen = dict_loop g m len i kvs items seen"
  using assms by (induction kvs arbitrary: i items seen) (auto split: prod.splits)

lemma attrs_loop_cong [fundef_cong]:
  assumes "\<And>x s. f x s = g x s"
  shows "attrs_loop f ga names attributes seen = attrs_loop g ga names attributes seen"
proof -
  have "f = g" using assms by (intro ext)
  then show ?thesis by simp
qed

lemma inspect_sequence_cong [fundef_cong]:
  assumes "\<And>x s. x \<in> set xs \<Longrightarrow> f x s = g x s"
  shows "inspect_sequence f self tn xs seen = inspect_sequence g self tn xs seen"
proof -
  have eq: "items_loop f m len i xs items s = items_loop g m len i xs items s" for m len i items s
    by (rule items_loop_cong) (rule assms)
  show ?thesis unfolding inspect_sequence_def by (simp add: eq Let_def cong: if_cong)
qed

lemma inspect_set_cong [fundef_cong]:
  assumes "\<And>x s. x \<in> set xs \<Longrightarrow> f x s = g x s"
  shows "inspect_set f self xs seen = inspect_set g self xs seen"
proof -
  have eq: "items_loop f m len i xs items s = items_loop g m len i xs items s" for m len i items s
    by (rule items_loop_cong) (rule assms)
  show ?thesis unfolding inspect_set_def by (simp add: eq Let_def cong: if_cong)
qed

lemma inspect_dict_cong [fundef_cong]:
  assumes "\<And>x s. x \<in> snd ` set kvs \<Longrightarrow> f x s = g x s"
  shows "inspect_dict f self kvs seen = inspect_dict g self kvs seen"
proof -
  have eq: "dict_loop f m len i kvs items s = dict_loop g m len i kvs items s" for m len i items s
    by (rule dict_loop_cong) (rule assms)
  show ?thesis unfolding inspect_dict_def by (simp add: eq Let_def cong: if_cong)
qed

lemma inspect_object_cong [fundef_cong]:
  assumes "\<And>x s. f x s = g x s"
  shows "inspect_object f self c seen = inspect_object g self c seen"
proof -
  have "f = g" using assms by (intro ext)
  then show ?thesis by simp
qed

text \<open>
  \<open>ObjectInspector.inspect(obj, depth)\<close>. The identity is added to \<open>_seen\<close> after the
  two checks and discarded in the \<open>finally\<close> clause. The records of the pandas and numpy
  values are built from the API of those libraries; \<open>lib_inspect\<close> stands for
  \<open>_inspect_dataframe\<close>, \<open>_inspect_series\<close> and \<open>_inspect_ndarray\<close>.
\<close>

function inspect :: "heap \<Rightarrow> (addr \<Rightarrow> jrecord) \<Rightarrow> inspector \<Rightarrow> addr \<Rightarrow> int \<Rightarrow> addr set
    \<Rightarrow> jrecord \<times> addr set" where
  "inspect h lib_inspect self obj depth seen =
     (let type_name = type_name_of (h obj) in
      if obj \<in> seen
      then ([(''type'', JStr type_name), (''value'', JStr ''<circular reference>''),
             (''circular'', JBool True)], seen)
      else if depth > self_max_depth self
      then ([(''type'', JStr type_name),
             (''value'', JStr (''<max depth '' @ str_int (self_max_depth self) @ '' exceeded>'')),
             (''truncated'', JBool True)], seen)
      else (case (case h obj of
                    PNone \<Rightarrow> ([(''type'', JStr ''NoneType''), (''value'', JStr ''None'')], insert obj seen)
                  | PBool b \<Rightarrow> ([(''type'', JStr ''bool''), (''value'', JStr (str_bool b))], insert obj seen)
                  | PInt i \<Rightarrow> (inspect_number (h obj), insert obj seen)
                  | PFloat txt k \<Rightarrow> (inspect_number (h obj), insert obj seen)
                  | PComplex txt \<Rightarrow> (inspect_number (h obj), insert obj seen)
                  | PStr n r \<Rightarrow> (inspect_string n r, insert obj seen)
                  | PBytes n r \<Rightarrow> (inspect_bytes n r, insert obj seen)
                  | PList xs \<Rightarrow>
                      inspect_sequence (\<lambda>item s. inspect h lib_inspect self item (depth + 1) s)
                        self type_name xs (insert obj seen)
                  | PTuple xs \<Rightarrow>
                      inspect_sequence (\<lambda>item s. inspect h lib_inspect self item (depth + 1) s)
                        self type_name xs (insert obj seen)
                  | PDict kvs \<Rightarrow>
                      inspect_dict (\<lambda>item s. inspect h lib_inspect self item (depth + 1) s)
                        self kvs (insert obj seen)
                  | PSet xs \<Rightarrow>
                      inspect_set (\<lambda>item s. inspect h lib_inspect self item (depth + 1) s)
                        self xs (insert obj seen)
                  | PObject c \<Rightarrow>
                      (if is_dataframe c \<or> is_series c \<or> is_ndarray c
                       then (lib_inspect obj, insert obj seen)
                       else if dict_keys c \<noteq> None \<or> slot_names c \<noteq> None
                       then inspect_object (\<lambda>item s. inspect h lib_inspect self item (depth + 1) s)
                              self c (insert obj seen)
                       else (inspect_generic c, insert obj seen)))
            of (result, seen') \<Rightarrow> (result, seen' - {obj})))"
  by pat_completeness auto
termination
  by (relation "measure (\<lambda>(h, lib_inspect, self, obj, depth, seen). nat (self_max_depth self + 1 - depth))")
     auto

declare inspect.simps [simp del]

section \<open>The debugger (debugger.py)\<close>

subsection \<open>Frames, commands, exceptions\<close>

text \<open>
  A frame of the target: its code's file and function name, the current line, the local and
  global bindings, and the caller's frame.
\<close>

datatype frame =
  Frame (co_filename: string) (co_name: string) (f_lineno: int)
        (f_locals: "(string \<times> addr) list") (f_globals: "(string \<times> addr) list")
        (f_back: "frame option")

text \<open>
  A command record as the command-line client builds it: the handler's name and the
  optional fields, with the types of the client's argument parser. \<open>command.get(k)\<close> is
  \<open>None\<close> for an absent field.
\<close>

record command =
  c_command :: string
  c_file :: "string option"
  c_line :: "int option"
  c_condition :: "string option"
  c_exception :: "string option"
  c_number :: "int option"
  c_depth :: "int option"
  c_expression :: "string option"

text \<open>Python's truth value of an optional string and of an optional int.\<close>

fun truthy_str :: "string option \<Rightarrow> bool" where
  "truthy_str None = False"
| "truthy_str (Some v) = (v \<noteq> [])"

fun truthy_int :: "int option \<Rightarrow> bool" where
  "truthy_int None = False"
| "truthy_int (Some n) = (n \<noteq> 0)"

text \<open>
  A raised exception: the name of its class, whether the class derives from
  \<open>Exception\<close> (\<open>SystemExit\<close>, \<open>KeyboardInterrupt\<close> and \<open>GeneratorExit\<close> do not), and
  \<open>str(e)\<close>. A call either returns or raises.
\<close>

datatype exc = Exc (exc_class: string) (exc_is_Exception: bool) (exc_str: string)

datatype 'a outcome = Returns 'a | Raises exc

text \<open>
  What \<open>bdb.Bdb\<close> was last asked to do (\<open>set_continue\<close>, \<open>set_step\<close>, \<open>set_next\<close>,
  \<open>set_return\<close>, \<open>set_quit\<close>).
\<close>

datatype bdb_request =
    No_request
  | Set_continue
  | Set_step
  | Set_next "frame option"
  | Set_return frame
  | Set_quit

record dbg =
  current_frame :: "frame option"
  current_frame_index :: int
  stack_frames :: "(frame \<times> int) list"
  stop_reason :: string
  exception_info :: "(string \<times> string \<times> string) option"
  break_on_exception :: bool
  exception_types :: "string list"
  should_quit :: bool
  bdb_stop :: bdb_request

definition init_dbg :: dbg where
  "init_dbg = \<lparr> current_frame = None, current_frame_index = 0, stack_frames = [],
                stop_reason = ''starting'', exception_info = None, break_on_exception = False,
                exception_types = [], should_quit = False, bdb_stop = No_request \<rparr>"

text \<open>
  What the handlers obtain from the Python runtime and its library: the heap of the
  target, \<open>linecache.getline(filename, lineno).rstrip()\<close> (\<open>None\<close> when it raises),
  \<open>traceback.format_exc()\<close>, \<open>os.path.abspath\<close>, the answers of \<open>bdb\<close>'s breakpoint
  table (\<open>set_break\<close> and \<open>clear_bpbynumber\<close> return an error text or \<open>None\<close>; the
  listing of \<open>bdb.Breakpoint.bpbynumber\<close>), and the outcome of the \<open>try\<close> blocks of
  \<open>_cmd_eval\<close> and \<open>_cmd_inspect\<close>, which run \<open>eval\<close> and \<open>exec\<close> on the target.
\<close>

record runtime =
  rt_heap :: heap
  source_line :: "string \<Rightarrow> int \<Rightarrow> string option"
  format_exc :: "exc \<Rightarrow> string"
  abspath :: "string \<Rightarrow> string"
  bdb_set_break :: "string \<Rightarrow> int \<Rightarrow> string option"
  bdb_clear_bpbynumber :: "int \<Rightarrow> string option"
  bdb_breakpoints :: "jrecord list"
  eval_block :: "string \<Rightarrow> frame \<Rightarrow> jrecord outcome"
  inspect_block :: "command \<Rightarrow> string \<Rightarrow> frame \<Rightarrow> jrecord outcome"

subsection \<open>Stops\<close>

text \<open>
  \<open>_build_stack\<close>: the loop appends the frame, moves to the caller and leaves once the
  list is longer than \<open>MAX_STACK_DEPTH\<close>.
\<close>

function build_stack_loop :: "frame option \<Rightarrow> (frame \<times> int) list \<Rightarrow> (frame \<times> int) list" where
  "build_stack_loop None stack = stack"
| "build_stack_loop (Some fr) stack =
     (let stack' = stack @ [(fr, f_lineno fr)] in
      if length stack' > MAX_STACK_DEPTH then stack' else build_stack_loop (f_back fr) stack')"
  by pat_completeness auto
termination
  by (relation "measure (\<lambda>(fr, stack). Suc MAX_STACK_DEPTH - length stack)") auto

definition build_stack :: "dbg \<Rightarrow> dbg" where
  "build_stack s = s\<lparr> stack_frames := build_stack_loop (current_frame s) [] \<rparr>"

text \<open>
  Each of the four stops ends with the call \<open>self._handle_stop()\<close>. The functions below
  give the state in which the command loop is entered; \<open>None\<close> when the event does not
  stop. \<open>stop_here\<close> is the answer of \<open>bdb\<close>'s \<open>stop_here(frame)\<close>.
\<close>

definition user_line :: "frame \<Rightarrow> dbg \<Rightarrow> dbg" where
  "user_line fr s =
     (build_stack (s\<lparr> current_frame := Some fr, current_frame_index := 0 \<rparr>))
       \<lparr> stop_reason := ''line'' \<rparr>"

definition user_return :: "bool \<Rightarrow> frame \<Rightarrow> dbg \<Rightarrow> dbg option" where
  "user_return stop_here fr s =
     (if stop_here
      then Some ((build_stack (s\<lparr> current_frame := Some fr, current_frame_index := 0 \<rparr>))
                   \<lparr> stop_reason := ''return'' \<rparr>)
      else None)"

text \<open>
  An exception event carries \<open>exc_type.__name__\<close> (\<open>None\<close> when \<open>exc_type\<close> is false),
  \<open>str(exc_value)\<close> and the formatted traceback.
\<close>

record exc_info =
  exc_type_name :: "string option"
  exc_value_str :: string
  exc_formatted :: string

definition should_break :: "string \<Rightarrow> dbg \<Rightarrow> bool" where
  "should_break exc_name s =
     (if break_on_exception s
      then (if exception_types s = [] then True
            else if exc_name \<in> set (exception_types s) then True
            else False)
      else False)"

definition user_exception :: "frame \<Rightarrow> exc_info \<Rightarrow> dbg \<Rightarrow> dbg option" where
  "user_exception fr info s =
     (let name = (case exc_type_name info of Some n \<Rightarrow> n | None \<Rightarrow> ''Unknown'') in
      if should_break name s
      then Some ((build_stack (s\<lparr> current_frame := Some fr, current_frame_index := 0 \<rparr>))
                   \<lparr> stop_reason := ''exception'',
                     exception_info := Some (name, exc_value_str info, exc_formatted info) \<rparr>)
      else None)"

text \<open>
  \<open>_handle_uncaught_exception(exc)\<close>: \<open>tb_frame\<close> is the frame of the innermost
  traceback entry, \<open>None\<close> when there is no traceback.
\<close>

definition handle_uncaught_exception :: "string \<Rightarrow> string \<Rightarrow> string \<Rightarrow> frame option \<Rightarrow> dbg \<Rightarrow> dbg" where
  "handle_uncaught_exception name msg formatted tb_frame s =
     (let s1 = s\<lparr> stop_reason := ''exception'', exception_info := Some (name, msg, formatted) \<rparr> in
      case tb_frame of
        Some fr \<Rightarrow> build_stack (s1\<lparr> current_frame := Some fr \<rparr>)
      | None \<Rightarrow> s1)"

subsection \<open>Command handlers\<close>

text \<open>
  \<open>_get_current_frame\<close>. Indexing a Python list with a negative index counts from the
  end and raises \<open>IndexError\<close> beyond it.
\<close>

definition IndexError :: exc where
  "IndexError = Exc ''IndexError'' True ''list index out of range''"

definition get_current_frame :: "dbg \<Rightarrow> frame option outcome" where
  "get_current_frame s =
     (let i = current_frame_index s; n = int (length (stack_frames s)) in
      if i < n
      then (if 0 \<le> i then Returns (Some (fst (stack_frames s ! nat i)))
            else if - i \<le> n then Returns (Some (fst (stack_frames s ! nat (n + i))))
            else Raises IndexError)
      else Returns (current_frame s))"

definition get_location :: "runtime \<Rightarrow> frame option \<Rightarrow> jrecord" where
  "get_location rt frame =
     (case frame of
        None \<Rightarrow> []
      | Some fr \<Rightarrow>
          [(''file'', JStr (co_filename fr)), (''line'', JInt (f_lineno fr)),
           (''function'', JStr (co_name fr)),
           (''code'', JStr (case source_line rt (co_filename fr) (f_lineno fr) of
                              Some l \<Rightarrow> l | None \<Rightarrow> []))])"

definition get_status_response :: "runtime \<Rightarrow> dbg \<Rightarrow> jrecord outcome" where
  "get_status_response rt s =
     (case get_current_frame s of
        Raises e \<Rightarrow> Raises e
      | Returns frame \<Rightarrow>
          Returns
            ([(''status'', JStr ''paused''), (''stop_reason'', JStr (stop_reason s)),
              (''location'', JObj (get_location rt frame)),
              (''variables'', JObj [(''locals'',
                 JObj (format_variables (rt_heap rt)
                         (case frame of Some fr \<Rightarrow> f_locals fr | None \<Rightarrow> []) 1))])]
             @ (case exception_info s of
                  Some (t, m, tb) \<Rightarrow>
                    [(''exception'', JObj [(''type'', JStr t), (''message'', JStr m),
                                           (''traceback'', JStr tb)])]
                | None \<Rightarrow> [])))"

definition cmd_status :: "runtime \<Rightarrow> command \<Rightarrow> dbg \<Rightarrow> jrecord outcome \<times> dbg" where
  "cmd_status rt c s = (get_status_response rt s, s)"

definition cmd_continue :: "command \<Rightarrow> dbg \<Rightarrow> jrecord outcome \<times> dbg" where
  "cmd_continue c s =
     (Returns [(''status'', JStr ''running''), (''_continue'', JBool True)],
      s\<lparr> bdb_stop := Set_continue, exception_info := None \<rparr>)"

definition cmd_step :: "command \<Rightarrow> dbg \<Rightarrow> jrecord outcome \<times> dbg" where
  "cmd_step c s =
     (Returns [(''status'', JStr ''stepping''), (''_continue'', JBool True)],
      s\<lparr> bdb_stop := Set_step, exception_info := None \<rparr>)"

definition cmd_next :: "command \<Rightarrow> dbg \<Rightarrow> jrecord outcome \<times> dbg" where
  "cmd_next c s =
     (Returns [(''status'', JStr ''stepping''), (''_continue'', JBool True)],
      s\<lparr> bdb_stop := Set_next (current_frame s), exception_info := None \<rparr>)"

text \<open>
  \<open>set_return(frame)\<close> reads \<open>frame.f_code\<close> first, which raises \<open>AttributeError\<close> on
  \<open>None\<close>, before \<open>_cmd_finish\<close> reaches its second statement.
\<close>

definition AttributeError :: exc where
  "AttributeError = Exc ''AttributeError'' True ''NoneType object has no attribute f_code''"

definition cmd_finish :: "command \<Rightarrow> dbg \<Rightarrow> jrecord outcome \<times> dbg" where
  "cmd_finish c s =
     (case current_frame s of
        None \<Rightarrow> (Raises AttributeError, s)
      | Some fr \<Rightarrow>
          (Returns [(''status'', JStr ''running''), (''_continue'', JBool True)],
           s\<lparr> bdb_stop := Set_return fr, exception_info := None \<rparr>))"

definition cmd_break :: "runtime \<Rightarrow> command \<Rightarrow> dbg \<Rightarrow> jrecord outcome \<times> dbg" where
  "cmd_break rt c s =
     (let filename = c_file c; lineno = c_line c; condition = c_condition c;
          exception_type = c_exception c
      in if truthy_str exception_type
         then (let t = the exception_type;
                   s1 = s\<lparr> break_on_exception := True \<rparr>;
                   s2 = (if t \<noteq> ''*''
                         then (if t \<notin> set (exception_types s1)
                               then s1\<lparr> exception_types := exception_types s1 @ [t] \<rparr> else s1)
                         else s1)
               in (Returns [(''status'', JStr ''ok''),
                            (''message'', JStr (''Exception breakpoint set for '' @ t))], s2))
         else if \<not> truthy_str filename \<or> \<not> truthy_int lineno
         then (Returns [(''error'', JStr ''Missing file or line number'')], s)
         else (let filename' = abspath rt (the filename);
                   bp = bdb_set_break rt filename' (the lineno)
               in if truthy_str bp
                  then (Returns [(''error'', JStr (the bp))], s)
                  else (Returns [(''status'', JStr ''ok''),
                                 (''message'', JStr (''Breakpoint set at '' @ filename' @ '':''
                                    @ str_int (the lineno)
                                    @ (if truthy_str condition
                                       then '' with condition: '' @ the condition else [])))], s)))"

definition cmd_delete :: "runtime \<Rightarrow> command \<Rightarrow> dbg \<Rightarrow> jrecord outcome \<times> dbg" where
  "cmd_delete rt c s =
     (let filename = c_file c; lineno = c_line c; bp_number = c_number c;
          exception_type = c_exception c
      in if truthy_str exception_type
         then (let t = the exception_type in
               if t = ''*''
               then (Returns [(''status'', JStr ''ok''),
                              (''message'', JStr ''All exception breakpoints cleared'')],
                     s\<lparr> break_on_exception := False, exception_types := [] \<rparr>)
               else if t \<in> set (exception_types s)
               then (let s1 = s\<lparr> exception_types := remove1 t (exception_types s) \<rparr>;
                         s2 = (if exception_types s1 = [] then s1\<lparr> break_on_exception := False \<rparr>
                               else s1)
                     in (Returns [(''status'', JStr ''ok''),
                                  (''message'', JStr (''Exception breakpoint for '' @ t @ '' removed''))],
                         s2))
               else (Returns [(''error'', JStr (''No exception breakpoint for '' @ t))], s))
         else if truthy_int bp_number
         then (let err = bdb_clear_bpbynumber rt (the bp_number) in
               if truthy_str err then (Returns [(''error'', JStr (the err))], s)
               else (Returns [(''status'', JStr ''ok''),
                              (''message'', JStr (''Breakpoint '' @ str_int (the bp_number) @ '' deleted''))],
                     s))
         else if truthy_str filename \<and> truthy_int lineno
         then (Returns [(''status'', JStr ''ok''),
                        (''message'', JStr (''Breakpoint at '' @ abspath rt (the filename) @ '':''
                                            @ str_int (the lineno) @ '' deleted''))], s)
         else (Returns [(''error'', JStr ''Must specify file/line or breakpoint number'')], s))"

definition cmd_breakpoints :: "runtime \<Rightarrow> command \<Rightarrow> dbg \<Rightarrow> jrecord outcome \<times> dbg" where
  "cmd_breakpoints rt c s =
     (let exception_breakpoints =
            (if break_on_exception s
             then (if exception_types s \<noteq> [] then exception_types s else [''*''])
             else [])
      in (Returns [(''status'', JStr ''ok''),
                   (''breakpoints'', JList (map JObj (bdb_breakpoints rt))),
                   (''exception_breakpoints'', JList (map JStr exception_breakpoints))], s))"

definition cmd_locals :: "runtime \<Rightarrow> command \<Rightarrow> dbg \<Rightarrow> jrecord outcome \<times> dbg" where
  "cmd_locals rt c s =
     (case get_current_frame s of
        Raises e \<Rightarrow> (Raises e, s)
      | Returns None \<Rightarrow> (Returns [(''error'', JStr ''No frame available'')], s)
      | Returns (Some fr) \<Rightarrow>
          (let max_depth = (case c_depth c of Some d \<Rightarrow> d | None \<Rightarrow> 2) in
           (Returns [(''status'', JStr ''ok''),
                     (''locals'', JObj (format_variables (rt_heap rt) (f_locals fr) max_depth))], s)))"

definition cmd_globals :: "runtime \<Rightarrow> command \<Rightarrow> dbg \<Rightarrow> jrecord outcome \<times> dbg" where
  "cmd_globals rt c s =
     (case get_current_frame s of
        Raises e \<Rightarrow> (Raises e, s)
      | Returns None \<Rightarrow> (Returns [(''error'', JStr ''No frame available'')], s)
      | Returns (Some fr) \<Rightarrow>
          (let max_depth = (case c_depth c of Some d \<Rightarrow> d | None \<Rightarrow> 2) in
           (Returns [(''status'', JStr ''ok''),
                     (''globals'', JObj (format_variables (rt_heap rt) (f_globals fr) max_depth))], s)))"

definition cmd_eval :: "runtime \<Rightarrow> command \<Rightarrow> dbg \<Rightarrow> jrecord outcome \<times> dbg" where
  "cmd_eval rt c s =
     (if \<not> truthy_str (c_expression c)
      then (Returns [(''error'', JStr ''No expression provided'')], s)
      else (case get_current_frame s of
              Raises e \<Rightarrow> (Raises e, s)
            | Returns None \<Rightarrow> (Returns [(''error'', JStr ''No frame available'')], s)
            | Returns (Some fr) \<Rightarrow> (eval_block rt (the (c_expression c)) fr, s)))"

definition cmd_inspect :: "runtime \<Rightarrow> command \<Rightarrow> dbg \<Rightarrow> jrecord outcome \<times> dbg" where
  "cmd_inspect rt c s =
     (if \<not> truthy_str (c_expression c)
      then (Returns [(''error'', JStr ''No expression provided'')], s)
      else (case get_current_frame s of
              Raises e \<Rightarrow> (Raises e, s)
            | Returns None \<Rightarrow> (Returns [(''error'', JStr ''No frame available'')], s)
            | Returns (Some fr) \<Rightarrow> (inspect_block rt c (the (c_expression c)) fr, s)))"

definition stack_entry :: "dbg \<Rightarrow> nat \<Rightarrow> frame \<times> int \<Rightarrow> json" where
  "stack_entry s i e =
     JObj [(''index'', JInt (int i)), (''file'', JStr (co_filename (fst e))),
           (''line'', JInt (snd e)), (''function'', JStr (co_name (fst e))),
           (''current'', JBool (int i = current_frame_index s))]"

definition cmd_stack :: "command \<Rightarrow> dbg \<Rightarrow> jrecord outcome \<times> dbg" where
  "cmd_stack c s =
     (Returns [(''status'', JStr ''ok''),
               (''stack'', JList (map (\<lambda>(i, e). stack_entry s i e)
                                      (enumerate 0 (stack_frames s)))),
               (''current_index'', JInt (current_frame_index s))], s)"

definition cmd_up :: "runtime \<Rightarrow> command \<Rightarrow> dbg \<Rightarrow> jrecord outcome \<times> dbg" where
  "cmd_up rt c s =
     (if current_frame_index s < int (length (stack_frames s)) - 1
      then (let s1 = s\<lparr> current_frame_index := current_frame_index s + 1 \<rparr> in
            case get_current_frame s1 of
              Raises e \<Rightarrow> (Raises e, s1)
            | Returns frame \<Rightarrow>
                (Returns [(''status'', JStr ''ok''),
                          (''message'', JStr (''Moved to frame '' @ str_int (current_frame_index s1))),
                          (''location'', JObj (get_location rt frame))], s1))
      else (Returns [(''error'', JStr ''Already at oldest frame'')], s))"

definition cmd_down :: "runtime \<Rightarrow> command \<Rightarrow> dbg \<Rightarrow> jrecord outcome \<times> dbg" where
  "cmd_down rt c s =
     (if current_frame_index s > 0
      then (let s1 = s\<lparr> current_frame_index := current_frame_index s - 1 \<rparr> in
            case get_current_frame s1 of
              Raises e \<Rightarrow> (Raises e, s1)
            | Returns frame \<Rightarrow>
                (Returns [(''status'', JStr ''ok''),
                          (''message'', JStr (''Moved to frame '' @ str_int (current_frame_index s1))),
                          (''location'', JObj (get_location rt frame))], s1))
      else (Returns [(''error'', JStr ''Already at newest frame'')], s))"

definition cmd_quit :: "command \<Rightarrow> dbg \<Rightarrow> jrecord outcome \<times> dbg" where
  "cmd_quit c s =
     (Returns [(''status'', JStr ''terminated''), (''_continue'', JBool True)],
      s\<lparr> should_quit := True, bdb_stop := Set_quit \<rparr>)"

subsection \<open>The dispatcher\<close>

text \<open>
  \<open>_process_command\<close>: the dict \<open>handlers\<close> from the command names to the bound
  methods, the lookup, and the \<open>try\<close> around the call, whose \<open>except Exception\<close> clause
  turns an exception of that class into a response.
\<close>

definition handlers :: "runtime \<Rightarrow> (string \<times> (command \<Rightarrow> dbg \<Rightarrow> jrecord outcome \<times> dbg)) list" where
  "handlers rt =
     [(''status'', cmd_status rt),
      (''continue'', cmd_continue),
      (''step'', cmd_step),
      (''next'', cmd_next),
      (''finish'', cmd_finish),
      (''break'', cmd_break rt),
      (''delete'', cmd_delete rt),
      (''breakpoints'', cmd_breakpoints rt),
      (''locals'', cmd_locals rt),
      (''globals'', cmd_globals rt),
      (''eval'', cmd_eval rt),
      (''inspect'', cmd_inspect rt),
      (''stack'', cmd_stack),
      (''up'', cmd_up rt),
      (''down'', cmd_down rt),
      (''quit'', cmd_quit)]"

definition process_command :: "runtime \<Rightarrow> string \<Rightarrow> command \<Rightarrow> dbg \<Rightarrow> jrecord outcome \<times> dbg" where
  "process_command rt cmd_name c s =
     (case map_of (handlers rt) cmd_name of
        Some handler \<Rightarrow>
          (case handler c s of
             (Returns r, s') \<Rightarrow> (Returns r, s')
           | (Raises e, s') \<Rightarrow>
               (if exc_is_Exception e
                then (Returns [(''error'', JStr (''Command error: '' @ exc_str e)),
                               (''traceback'', JStr (format_exc rt e))], s')
                else (Raises e, s')))
      | None \<Rightarrow> (Returns [(''error'', JStr (''Unknown command: '' @ cmd_name))], s))"

section \<open>The liveness probe of the session registry\<close>

text \<open>
  \<open>SessionManager._is_process_alive(pid)\<close>. \<open>os.kill(pid, 0)\<close> returns, or raises
  \<open>ProcessLookupError\<close> (no such process), \<open>PermissionError\<close> (the process exists and
  belongs to another user), another \<open>OSError\<close>, or \<open>OverflowError\<close> (a pid beyond the
  range of the C type). The first three are subclasses of \<open>OSError\<close>.
\<close>

datatype kill_error = ProcessLookupError | PermissionError | OSError | OverflowError

datatype kill_result = Signalled | KillRaises kill_error

fun is_OSError :: "kill_error \<Rightarrow> bool" where
  "is_OSError OverflowError = False"
| "is_OSError _ = True"

definition is_process_alive :: "(int \<Rightarrow> int \<Rightarrow> kill_result) \<Rightarrow> int option \<Rightarrow> kill_error + bool" where
  "is_process_alive os_kill pid =
     (case pid of
        None \<Rightarrow> Inr False
      | Some p \<Rightarrow>
          (case os_kill p 0 of
             Signalled \<Rightarrow> Inr True
           | KillRaises e \<Rightarrow>
               (if is_OSError e \<or> e = ProcessLookupError then Inr False else Inl e)))"

section \<open>The command loop\<close>

text \<open>Python's truth value of a JSON value, as \<open>response.get("_continue", False)\<close> is tested.\<close>

fun json_truthy :: "json \<Rightarrow> bool" where
  "json_truthy JNull = False"
| "json_truthy (JBool b) = b"
| "json_truthy (JInt i) = (i \<noteq> 0)"
| "json_truthy (JStr v) = (v \<noteq> [])"
| "json_truthy (JList xs) = (xs \<noteq> [])"
| "json_truthy (JObj kv) = (kv \<noteq> [])"

definition resuming :: "jrecord \<Rightarrow> bool" where
  "resuming response = (case map_of response ''_continue'' of Some v \<Rightarrow> json_truthy v | None \<Rightarrow> False)"

text \<open>
  \<open>_handle_stop\<close> serves the commands that \<open>receive_command\<close> delivers; \<open>None\<close> stands
  for a receive that yields no command (the peer went away, or an empty record). The loop
  is left by a resuming response or by \<open>should_quit\<close>; an exception that the dispatcher
  lets through leaves it as well. On an exhausted input the target stays parked in the
  loop. The result holds the responses sent, how the loop was left, and the state.
\<close>

datatype loop_exit = Resumed | Parked | Propagated exc

fun handle_stop :: "runtime \<Rightarrow> command option list \<Rightarrow> dbg \<Rightarrow> jrecord list \<times> loop_exit \<times> dbg" where
  "handle_stop rt [] s = ([], if should_quit s then Resumed else Parked, s)"
| "handle_stop rt (None # rest) s =
     (if should_quit s then ([], Resumed, s) else handle_stop rt rest s)"
| "handle_stop rt (Some c # rest) s =
     (if should_quit s then ([], Resumed, s)
      else (case process_command rt (c_command c) c s of
              (Raises e, s') \<Rightarrow> ([], Propagated e, s')
            | (Returns response, s') \<Rightarrow>
                (if resuming response then ([response], Resumed, s')
                 else (case handle_stop rt rest s' of
                         (sent, exit, s'') \<Rightarrow> (response # sent, exit, s'')))))"

section \<open>Concrete inputs\<close>

text \<open>
  A command record with the handler's name only, and with an exception type or an
  expression, as the client sends them.
\<close>

definition plain_command :: "string \<Rightarrow> command" where
  "plain_command name =
     \<lparr> c_command = name, c_file = None, c_line = None, c_condition = None, c_exception = None,
       c_number = None, c_depth = None, c_expression = None \<rparr>"

definition exception_command :: "string \<Rightarrow> string \<Rightarrow> command" where
  "exception_command name t = (plain_command name)\<lparr> c_exception := Some t \<rparr>"


text \<open>
  A target whose module calls \<open>g\<close> at line 7; \<open>g\<close> is at its line 3. The heap holds a
  list that contains itself (at 0), a list of one list of one int (at 1, 2, 3) and an
  empty list (at 4); every other identity is \<open>None\<close>.
\<close>

definition module_frame :: frame where
  "module_frame = Frame ''t.py'' ''<module>'' 7 [] [] None"

definition g_frame :: frame where
  "g_frame = Frame ''t.py'' ''g'' 3 [(''xs'', 4)] [] (Some module_frame)"

definition example_heap :: heap where
  "example_heap a =
     (if a = 0 then PList [0]
      else if a = 1 then PList [2]
      else if a = 2 then PList [3]
      else if a = 3 then PInt 1
      else if a = 4 then PList []
      else PNone)"

text \<open>
  A runtime in which the expression \<open>raise SystemExit\<close> does what it says: \<open>eval\<close>
  rejects the statement with \<open>SyntaxError\<close>, \<open>exec\<close> runs it, and no \<open>except\<close> clause
  of \<open>_cmd_eval\<close> matches \<open>SystemExit\<close>. The expression \<open>1/0\<close> is answered by the
  \<open>except Exception\<close> clause of \<open>_cmd_eval\<close>.
\<close>

definition example_runtime :: runtime where
  "example_runtime =
     \<lparr> rt_heap = example_heap,
       source_line = (\<lambda>file line. Some []),
       format_exc = (\<lambda>e. ''Traceback (most recent call last): '' @ exc_class e),
       abspath = (\<lambda>p. ''/work/'' @ p),
       bdb_set_break = (\<lambda>file line. None),
       bdb_clear_bpbynumber = (\<lambda>n. None),
       bdb_breakpoints = [],
       eval_block = (\<lambda>expr fr.
          if expr = ''raise SystemExit'' then Raises (Exc ''SystemExit'' False [])
          else Returns [(''error'', JStr ''ZeroDivisionError: division by zero''),
                        (''expression'', JStr expr)]),
       inspect_block = (\<lambda>c expr fr. Raises (Exc ''KeyError'' True ''depth'')) \<rparr>"

definition example_inspector :: inspector where
  "example_inspector = \<lparr> self_max_depth = 1, self_max_items = 50 \<rparr>"

section \<open>Notions used in the statements\<close>

text \<open>
  A stack view is a chain of callers: its first entry is the given frame, every entry
  records the frame's current line, and every next entry is the caller (\<open>f_back\<close>) of
  the one before.
\<close>

fun caller_chain :: "frame option \<Rightarrow> (frame \<times> int) list \<Rightarrow> bool" where
  "caller_chain start [] = True"
| "caller_chain start (e # rest) =
     (start = Some (fst e) \<and> snd e = f_lineno (fst e) \<and> caller_chain (f_back (fst e)) rest)"

text \<open>A call chain of \<open>n\<close> calls of \<open>f\<close> below the module.\<close>

fun deep_frame :: "nat \<Rightarrow> frame" where
  "deep_frame 0 = module_frame"
| "deep_frame (Suc n) = Frame ''t.py'' ''f'' 2 [] [] (Some (deep_frame n))"









text \<open>The number of elements of a list, tuple or set, and of keys of a dict.\<close>

fun entries_count :: "pyobj \<Rightarrow> nat option" where
  "entries_count (PList xs) = Some (length xs)"
| "entries_count (PTuple xs) = Some (length xs)"
| "entries_count (PDict kvs) = Some (length kvs)"
| "entries_count (PSet xs) = Some (length xs)"
| "entries_count _ = None"


section \<open>Properties of the debugger\<close>

lemma handlers_lookup:
  "map_of (handlers rt) ''status'' = Some (cmd_status rt)"
  "map_of (handlers rt) ''continue'' = Some cmd_continue"
  "map_of (handlers rt) ''step'' = Some cmd_step"
  "map_of (handlers rt) ''next'' = Some cmd_next"
  "map_of (handlers rt) ''finish'' = Some cmd_finish"
  "map_of (handlers rt) ''break'' = Some (cmd_break rt)"
  "map_of (handlers rt) ''delete'' = Some (cmd_delete rt)"
  "map_of (handlers rt) ''breakpoints'' = Some (cmd_breakpoints rt)"
  "map_of (handlers rt) ''locals'' = Some (cmd_locals rt)"
  "map_of (handlers rt) ''globals'' = Some (cmd_globals rt)"
  "map_of (handlers rt) ''eval'' = Some (cmd_eval rt)"
  "map_of (handlers rt) ''inspect'' = Some (cmd_inspect rt)"
  "map_of (handlers rt) ''stack'' = Some cmd_stack"
  "map_of (handlers rt) ''up'' = Some (cmd_up rt)"
  "map_of (handlers rt) ''down'' = Some (cmd_down rt)"
  "map_of (handlers rt) ''quit'' = Some cmd_quit"
  by (simp_all add: handlers_def)

subsection \<open>The wildcard exception breakpoint\<close>

text \<open>
  C1. After \<open>break\<close> with the exception type \<open>*\<close>, every exception event should stop,
  whatever named types were configured before. The code does not: \<open>_cmd_break\<close> only
  sets \<open>break_on_exception\<close> for \<open>*\<close> and leaves \<open>exception_types\<close> as it is, and
  \<open>user_exception\<close> treats the wildcard as "the list is empty". With \<open>ValueError\<close>
  configured first, the wildcard is acknowledged and a \<open>KeyError\<close> still does not stop.
\<close>

theorem wildcard_after_named_type_is_ignored:
  "(case handle_stop example_runtime
           [Some (exception_command ''break'' ''ValueError''),
            Some (exception_command ''break'' ''*'')] init_dbg of
      (sent, exit, s) \<Rightarrow>
        sent = [[(''status'', JStr ''ok''), (''message'', JStr ''Exception breakpoint set for ValueError'')],
                [(''status'', JStr ''ok''), (''message'', JStr ''Exception breakpoint set for *'')]]
        \<and> break_on_exception s \<and> exception_types s = [''ValueError'']
        \<and> user_exception g_frame
              \<lparr> exc_type_name = Some ''KeyError'', exc_value_str = ''k'', exc_formatted = ''Traceback'' \<rparr> s
            = None)"
  by (simp add: handlers_lookup process_command_def cmd_break_def exception_command_def
      plain_command_def init_dbg_def resuming_def user_exception_def should_break_def Let_def)

subsection \<open>The selected frame at a stop\<close>

text \<open>The line stop, the return stop and the exception stop select the innermost frame.\<close>

lemma traced_stops_select_innermost_frame:
  "current_frame_index (user_line fr s) = 0"
  "user_return stop_here fr s = Some s' \<Longrightarrow> current_frame_index s' = 0"
  "user_exception fr info s = Some s' \<Longrightarrow> current_frame_index s' = 0"
  by (auto simp: user_line_def user_return_def user_exception_def build_stack_def Let_def
      split: if_splits)

text \<open>
  C2. At every stop the selected-frame index should be 0 when the command loop is entered.
  \<open>user_line\<close>, \<open>user_return\<close> and \<open>user_exception\<close> reset it;
  \<open>_handle_uncaught_exception\<close> does not. After a line stop in \<open>g\<close>, the commands
  \<open>up\<close> and \<open>continue\<close>, and an exception that escapes the module, the final stop is
  entered with index 1 on a stack of one frame.
\<close>

theorem uncaught_stop_keeps_selected_index:
  "(let s1 = user_line g_frame init_dbg in
    case handle_stop example_runtime [Some (plain_command ''up''), Some (plain_command ''continue'')] s1 of
      (sent, exit, s2) \<Rightarrow>
        (let s3 = handle_uncaught_exception ''ZeroDivisionError'' ''division by zero'' ''Traceback''
                    (Some module_frame) s2
         in current_frame_index s1 = 0 \<and> exit = Resumed \<and> current_frame_index s3 = 1
            \<and> length (stack_frames s3) = 1))"
  by (simp add: handlers_lookup process_command_def cmd_up_def cmd_continue_def plain_command_def
      init_dbg_def resuming_def user_line_def build_stack_def g_frame_def module_frame_def
      MAX_STACK_DEPTH_def get_current_frame_def handle_uncaught_exception_def Let_def)

subsection \<open>The liveness probe\<close>

text \<open>
  C3. A probe that fails with a permission error should report the process alive. The
  \<open>except\<close> clause of \<open>_is_process_alive\<close> names \<open>OSError\<close>, of which
  \<open>PermissionError\<close> is a subclass, so the probe of a process of another user (pid 1
  for an unprivileged caller) reports it dead.
\<close>

theorem permission_error_reports_dead:
  "is_process_alive (\<lambda>pid sig. if pid = 1 then KillRaises PermissionError else Signalled) (Some 1)
     = Inr False"
  by (simp add: is_process_alive_def)

subsection \<open>The stack view\<close>

lemma build_stack_loop_length:
  "length acc \<le> MAX_STACK_DEPTH \<Longrightarrow> length (build_stack_loop fo acc) \<le> Suc MAX_STACK_DEPTH"
  by (induction fo acc rule: build_stack_loop.induct) (auto simp: Let_def)

lemma caller_chain_snoc:
  "caller_chain start (xs @ [e]) =
     (if xs = [] then start = Some (fst e) \<and> snd e = f_lineno (fst e)
      else caller_chain start xs \<and> f_back (fst (last xs)) = Some (fst e) \<and> snd e = f_lineno (fst e))"
  by (induction xs arbitrary: start) auto

lemma build_stack_loop_chain:
  "caller_chain start acc \<Longrightarrow> (if acc = [] then fo = start else fo = f_back (fst (last acc)))
     \<Longrightarrow> caller_chain start (build_stack_loop fo acc)"
proof (induction fo acc rule: build_stack_loop.induct)
  case (1 stack)
  then show ?case by simp
next
  case (2 fr stack)
  have step: "caller_chain start (stack @ [(fr, f_lineno fr)])"
    using "2.prems" by (auto simp: caller_chain_snoc split: if_splits)
  show ?case
  proof (cases "length (stack @ [(fr, f_lineno fr)]) > MAX_STACK_DEPTH")
    case True
    then show ?thesis using step by (simp add: Let_def)
  next
    case False
    have "caller_chain start (build_stack_loop (f_back fr) (stack @ [(fr, f_lineno fr)]))"
      by (rule "2.IH") (use False step in auto)
    then show ?thesis using False by (simp add: Let_def)
  qed
qed

text \<open>
  C10. Every stack view built at a stop holds at most \<open>MAX_STACK_DEPTH + 1 = 51\<close>
  entries, ordered from the stopped frame outward through the callers, and the \<open>stack\<close>
  command lists exactly the entries of the view. The four stops build theirs with
  \<open>_build_stack\<close>; the final stop without a traceback keeps the previous view.
\<close>

theorem stack_view_at_most_51_frames:
  "(let view = stack_frames (build_stack s) in
      length view \<le> MAX_STACK_DEPTH + 1 \<and> MAX_STACK_DEPTH + 1 = 51
      \<and> caller_chain (current_frame s) view
      \<and> (\<exists>entries. fst (cmd_stack c (build_stack s))
            = Returns [(''status'', JStr ''ok''), (''stack'', JList entries),
                       (''current_index'', JInt (current_frame_index s))]
            \<and> length entries = length view))
   \<and> length (stack_frames (user_line fr s)) \<le> 51
   \<and> (case user_return b fr s of Some s' \<Rightarrow> length (stack_frames s') \<le> 51 | None \<Rightarrow> True)
   \<and> (case user_exception fr info s of Some s' \<Rightarrow> length (stack_frames s') \<le> 51 | None \<Rightarrow> True)
   \<and> (length (stack_frames s) \<le> 51
        \<longrightarrow> length (stack_frames (handle_uncaught_exception n m t tb s)) \<le> 51)"
proof -
  have len: "length (build_stack_loop fo []) \<le> 51" for fo
    using build_stack_loop_length [where fo = fo and acc = "[]"] by (simp add: MAX_STACK_DEPTH_def)
  have chain: "caller_chain (current_frame s) (build_stack_loop (current_frame s) [])"
    by (rule build_stack_loop_chain) simp_all
  show ?thesis
    using len chain
    by (auto simp: Let_def build_stack_def MAX_STACK_DEPTH_def cmd_stack_def user_line_def
        user_return_def user_exception_def handle_uncaught_exception_def
        simp del: build_stack_loop.simps split: option.splits)
qed

theorem stack_view_at_most_51_frames_witness:
  "length (stack_frames (build_stack (init_dbg\<lparr> current_frame := Some (deep_frame 60) \<rparr>))) \<le> 51
   \<and> length (stack_frames (handle_uncaught_exception ''E'' ''m'' ''t'' None init_dbg)) \<le> 51"
  using stack_view_at_most_51_frames
    [where s = "init_dbg\<lparr> current_frame := Some (deep_frame 60) \<rparr>"]
    stack_view_at_most_51_frames
    [where s = init_dbg and n = "''E''" and m = "''m''" and t = "''t''" and tb = None]
  by (simp add: Let_def MAX_STACK_DEPTH_def init_dbg_def)

subsection \<open>The exception record and the resuming commands\<close>

text \<open>
  C7, as the claim states it, fails for \<open>quit\<close>: \<open>_cmd_quit\<close> sets \<open>should_quit\<close>
  and asks \<open>bdb\<close> to quit, and leaves \<open>exception_info\<close> as it is.
\<close>

theorem quit_keeps_exception_record:
  "(let s = handle_uncaught_exception ''ZeroDivisionError'' ''division by zero'' ''Traceback''
              (Some g_frame) init_dbg
    in exception_info s \<noteq> None
       \<and> process_command example_runtime ''quit'' (plain_command ''quit'') s
           = (Returns [(''status'', JStr ''terminated''), (''_continue'', JBool True)],
              s\<lparr> should_quit := True, bdb_stop := Set_quit \<rparr>)
       \<and> exception_info (snd (process_command example_runtime ''quit'' (plain_command ''quit'') s))
           = Some (''ZeroDivisionError'', ''division by zero'', ''Traceback''))"
  by (simp add: process_command_def handlers_lookup cmd_quit_def handle_uncaught_exception_def
      Let_def init_dbg_def build_stack_def)

text \<open>
  C7, amended. \<open>continue\<close>, \<open>step\<close> and \<open>next\<close>, and \<open>finish\<close> when there is a
  current frame (as at every stop), answer with a resuming response and clear the
  exception record. \<open>quit\<close> answers with a resuming response, sets \<open>should_quit\<close> and
  leaves the exception record unchanged.
\<close>

theorem resuming_commands_clear_exception_record:
  "((name = ''continue'' \<or> name = ''step'' \<or> name = ''next''
       \<or> (name = ''finish'' \<and> current_frame s \<noteq> None))
      \<longrightarrow> (\<exists>r s'. process_command rt name c s = (Returns r, s') \<and> resuming r
                  \<and> exception_info s' = None))
   \<and> (\<exists>r s'. process_command rt ''quit'' c s = (Returns r, s') \<and> resuming r \<and> should_quit s'
          \<and> exception_info s' = exception_info s)"
  by (auto simp: process_command_def handlers_lookup cmd_continue_def cmd_step_def cmd_next_def
      cmd_finish_def cmd_quit_def resuming_def)

theorem resuming_commands_clear_exception_record_witness:
  "(let s = handle_uncaught_exception ''ZeroDivisionError'' ''division by zero'' ''Traceback''
              (Some g_frame) init_dbg
    in exception_info s \<noteq> None
       \<and> exception_info (snd (process_command example_runtime ''finish'' (plain_command ''finish'') s)) = None
       \<and> exception_info (snd (process_command example_runtime ''continue'' (plain_command ''continue'') s)) = None)"
  using resuming_commands_clear_exception_record
    [where name = "''finish''" and s = "handle_uncaught_exception ''ZeroDivisionError''
        ''division by zero'' ''Traceback'' (Some g_frame) init_dbg" and rt = example_runtime
        and c = "plain_command ''finish''"]
    resuming_commands_clear_exception_record
    [where name = "''continue''" and s = "handle_uncaught_exception ''ZeroDivisionError''
        ''division by zero'' ''Traceback'' (Some g_frame) init_dbg" and rt = example_runtime
        and c = "plain_command ''continue''"]
  by (auto simp: handle_uncaught_exception_def Let_def init_dbg_def build_stack_def)

subsection \<open>The dispatcher and the exceptions of the handlers\<close>




subsection \<open>Stack navigation\<close>

lemma cmd_up_in_range:
  assumes "0 \<le> current_frame_index s"
  shows "cmd_up rt c s =
     (if current_frame_index s < int (length (stack_frames s)) - 1
      then (Returns [(''status'', JStr ''ok''),
                     (''message'', JStr (''Moved to frame '' @ str_int (current_frame_index s + 1))),
                     (''location'', JObj (get_location rt
                        (Some (fst (stack_frames s ! nat (current_frame_index s + 1))))))],
            s\<lparr> current_frame_index := current_frame_index s + 1 \<rparr>)
      else (Returns [(''error'', JStr ''Already at oldest frame'')], s))"
  using assms by (simp add: cmd_up_def get_current_frame_def Let_def)

lemma cmd_down_in_range:
  assumes "current_frame_index s < int (length (stack_frames s))"
  shows "cmd_down rt c s =
     (if current_frame_index s > 0
      then (Returns [(''status'', JStr ''ok''),
                     (''message'', JStr (''Moved to frame '' @ str_int (current_frame_index s - 1))),
                     (''location'', JObj (get_location rt
                        (Some (fst (stack_frames s ! nat (current_frame_index s - 1))))))],
            s\<lparr> current_frame_index := current_frame_index s - 1 \<rparr>)
      else (Returns [(''error'', JStr ''Already at newest frame'')], s))"
  using assms by (simp add: cmd_down_def get_current_frame_def Let_def)

lemma navigation_step:
  assumes "0 \<le> current_frame_index s" "current_frame_index s < int (length (stack_frames s))"
    and "name = ''up'' \<or> name = ''down''"
  shows "\<exists>r s'. process_command rt name c s = (Returns r, s') \<and> \<not> resuming r
           \<and> stack_frames s' = stack_frames s \<and> should_quit s' = should_quit s
           \<and> 0 \<le> current_frame_index s' \<and> current_frame_index s' < int (length (stack_frames s))"
  using assms
  by (auto simp: process_command_def handlers_lookup cmd_up_in_range cmd_down_in_range resuming_def)

lemma navigation_loop:
  assumes "\<forall>c \<in> set cmds. c_command c = ''up'' \<or> c_command c = ''down''"
    and "0 \<le> current_frame_index s" "current_frame_index s < int (length (stack_frames s))"
  shows "case handle_stop rt (map Some cmds) s of
           (sent, exit, s') \<Rightarrow>
             exit = (if should_quit s then Resumed else Parked)
             \<and> stack_frames s' = stack_frames s
             \<and> 0 \<le> current_frame_index s' \<and> current_frame_index s' < int (length (stack_frames s))"
  using assms
proof (induction cmds arbitrary: s)
  case Nil
  then show ?case by simp
next
  case (Cons c cmds)
  show ?case
  proof (cases "should_quit s")
    case True
    then show ?thesis using Cons.prems by simp
  next
    case False
    from Cons.prems obtain r s' where
      step: "process_command rt (c_command c) c s = (Returns r, s')" "\<not> resuming r"
        "stack_frames s' = stack_frames s" "should_quit s' = should_quit s"
        "0 \<le> current_frame_index s'" "current_frame_index s' < int (length (stack_frames s))"
      using navigation_step [of s "c_command c" rt c] by auto
    have "case handle_stop rt (map Some cmds) s' of
           (sent, exit, s'') \<Rightarrow>
             exit = (if should_quit s' then Resumed else Parked)
             \<and> stack_frames s'' = stack_frames s'
             \<and> 0 \<le> current_frame_index s'' \<and> current_frame_index s'' < int (length (stack_frames s'))"
      by (rule Cons.IH) (use Cons.prems step in auto)
    then show ?thesis using False step by (auto split: prod.splits)
  qed
qed

text \<open>
  The guards of \<open>_cmd_up\<close> and \<open>_cmd_down\<close>, from a selected index that lies in
  \<open>[0, n)\<close> when the commands begin (as \<open>user_line\<close>, \<open>user_return\<close> and
  \<open>user_exception\<close> leave it): every sequence of \<open>up\<close> and \<open>down\<close> commands served
  by the command loop leaves the stack as it is and the index in \<open>[0, n)\<close>, and does not
  leave the loop. \<open>up\<close> increments the index while it is below \<open>n - 1\<close> and otherwise
  answers with an error record and changes nothing; \<open>down\<close> decrements it while it is
  above 0 and otherwise answers with an error record and changes nothing.
\<close>

lemma up_down_from_index_in_range:
  assumes "0 \<le> current_frame_index s" and "current_frame_index s < int (length (stack_frames s))"
  shows "(\<forall>cmds. (\<forall>c \<in> set cmds. c_command c = ''up'' \<or> c_command c = ''down'')
            \<longrightarrow> (case handle_stop rt (map Some cmds) s of
                   (sent, exit, s') \<Rightarrow>
                     exit = (if should_quit s then Resumed else Parked)
                     \<and> stack_frames s' = stack_frames s
                     \<and> 0 \<le> current_frame_index s'
                     \<and> current_frame_index s' < int (length (stack_frames s))))
         \<and> (current_frame_index s < int (length (stack_frames s)) - 1
              \<longrightarrow> snd (cmd_up rt c s) = s\<lparr> current_frame_index := current_frame_index s + 1 \<rparr>
                  \<and> (\<exists>r. fst (cmd_up rt c s) = Returns r \<and> map_of r ''status'' = Some (JStr ''ok'')
                           \<and> map_of r ''error'' = None))
         \<and> (\<not> current_frame_index s < int (length (stack_frames s)) - 1
              \<longrightarrow> cmd_up rt c s = (Returns [(''error'', JStr ''Already at oldest frame'')], s))
         \<and> (current_frame_index s > 0
              \<longrightarrow> snd (cmd_down rt c s) = s\<lparr> current_frame_index := current_frame_index s - 1 \<rparr>
                  \<and> (\<exists>r. fst (cmd_down rt c s) = Returns r \<and> map_of r ''status'' = Some (JStr ''ok'')
                           \<and> map_of r ''error'' = None))
         \<and> (\<not> current_frame_index s > 0
              \<longrightarrow> cmd_down rt c s = (Returns [(''error'', JStr ''Already at newest frame'')], s))"
proof -
  have loop: "\<forall>cmds. (\<forall>c \<in> set cmds. c_command c = ''up'' \<or> c_command c = ''down'')
            \<longrightarrow> (case handle_stop rt (map Some cmds) s of
                   (sent, exit, s') \<Rightarrow>
                     exit = (if should_quit s then Resumed else Parked)
                     \<and> stack_frames s' = stack_frames s
                     \<and> 0 \<le> current_frame_index s'
                     \<and> current_frame_index s' < int (length (stack_frames s)))"
  proof (intro allI impI)
    fix cmds :: "command list"
    assume "\<forall>c \<in> set cmds. c_command c = ''up'' \<or> c_command c = ''down''"
    then show "case handle_stop rt (map Some cmds) s of
                   (sent, exit, s') \<Rightarrow>
                     exit = (if should_quit s then Resumed else Parked)
                     \<and> stack_frames s' = stack_frames s
                     \<and> 0 \<le> current_frame_index s'
                     \<and> current_frame_index s' < int (length (stack_frames s))"
      by (rule navigation_loop) (rule assms)+
  qed
  have up: "cmd_up rt c s =
     (if current_frame_index s < int (length (stack_frames s)) - 1
      then (Returns [(''status'', JStr ''ok''),
                     (''message'', JStr (''Moved to frame '' @ str_int (current_frame_index s + 1))),
                     (''location'', JObj (get_location rt
                        (Some (fst (stack_frames s ! nat (current_frame_index s + 1))))))],
            s\<lparr> current_frame_index := current_frame_index s + 1 \<rparr>)
      else (Returns [(''error'', JStr ''Already at oldest frame'')], s))"
    by (rule cmd_up_in_range) (rule assms)
  have down: "cmd_down rt c s =
     (if current_frame_index s > 0
      then (Returns [(''status'', JStr ''ok''),
                     (''message'', JStr (''Moved to frame '' @ str_int (current_frame_index s - 1))),
                     (''location'', JObj (get_location rt
                        (Some (fst (stack_frames s ! nat (current_frame_index s - 1))))))],
            s\<lparr> current_frame_index := current_frame_index s - 1 \<rparr>)
      else (Returns [(''error'', JStr ''Already at newest frame'')], s))"
    by (rule cmd_down_in_range) (rule assms)
  show ?thesis
    apply (intro conjI)
        apply (rule loop)
       apply (simp add: up)
      apply (simp add: up)
     apply (simp add: down)
    apply (simp add: down)
    done
qed

lemma up_down_from_index_in_range_example:
  "(case handle_stop example_runtime
           (map Some [plain_command ''up'', plain_command ''up'', plain_command ''down'',
                      plain_command ''down'', plain_command ''down''])
           (user_line g_frame init_dbg) of
      (sent, exit, s') \<Rightarrow>
        exit = Parked \<and> 0 \<le> current_frame_index s' \<and> current_frame_index s' < 2)
   \<and> cmd_down example_runtime (plain_command ''down'') (user_line g_frame init_dbg)
       = (Returns [(''error'', JStr ''Already at newest frame'')], user_line g_frame init_dbg)
   \<and> snd (cmd_up example_runtime (plain_command ''up'') (user_line g_frame init_dbg))
       = (user_line g_frame init_dbg)\<lparr> current_frame_index := 1 \<rparr>"
proof -
  have s: "current_frame_index (user_line g_frame init_dbg) = 0"
    "length (stack_frames (user_line g_frame init_dbg)) = 2"
    "\<not> should_quit (user_line g_frame init_dbg)"
    by (simp_all add: user_line_def build_stack_def init_dbg_def g_frame_def module_frame_def
        MAX_STACK_DEPTH_def Let_def)
  have h: "0 \<le> current_frame_index (user_line g_frame init_dbg)"
    "current_frame_index (user_line g_frame init_dbg)
       < int (length (stack_frames (user_line g_frame init_dbg)))"
    by (simp_all add: s)
  have cmds: "\<forall>c \<in> set [plain_command ''up'', plain_command ''up'', plain_command ''down'',
                      plain_command ''down'', plain_command ''down''].
                c_command c = ''up'' \<or> c_command c = ''down''"
    by (simp add: plain_command_def)
  note t = up_down_from_index_in_range [OF h, where rt = example_runtime]
  have loop: "case handle_stop example_runtime
           (map Some [plain_command ''up'', plain_command ''up'', plain_command ''down'',
                      plain_command ''down'', plain_command ''down''])
           (user_line g_frame init_dbg) of
      (sent, exit, s') \<Rightarrow>
        exit = Parked \<and> 0 \<le> current_frame_index s' \<and> current_frame_index s' < 2"
    using t [THEN conjunct1, THEN spec, THEN mp, OF cmds]
    by (simp add: s split: prod.splits del: handle_stop.simps list.map)
  have down: "cmd_down example_runtime (plain_command ''down'') (user_line g_frame init_dbg)
       = (Returns [(''error'', JStr ''Already at newest frame'')], user_line g_frame init_dbg)"
    using t [where c = "plain_command ''down''", THEN conjunct2, THEN conjunct2, THEN conjunct2,
        THEN conjunct2]
    by (simp add: s)
  have up: "snd (cmd_up example_runtime (plain_command ''up'') (user_line g_frame init_dbg))
       = (user_line g_frame init_dbg)\<lparr> current_frame_index := 1 \<rparr>"
    using t [where c = "plain_command ''up''", THEN conjunct2, THEN conjunct1]
    by (simp add: s)
  show ?thesis
    by (intro conjI) (rule loop, rule down, rule up)
qed


section \<open>Properties of the formatters\<close>

subsection \<open>The nesting of the output\<close>





















lemma fst_discard: "fst (case p of (result, seen') \<Rightarrow> (result, f seen')) = fst p"
  by (cases p) simp


subsection \<open>Re-entered values\<close>

text \<open>
  C4, as the claim states it, fails for \<open>format_value\<close>: the record it returns for a
  re-entered value has the fields \<open>type\<close> and \<open>value\<close> only. The list that contains
  itself is formatted with one such record as its item.
\<close>

theorem format_value_circular_has_no_flag:
  "format_value example_heap 0 2 0 {}
     = [(''type'', JStr ''list''), (''value'', JStr ''<list with 1 items>''),
        (''items'', JList [JObj [(''type'', JStr ''list''), (''value'', JStr ''<circular reference>'')]])]
   \<and> map_of (format_value example_heap 0 2 1 {0}) ''circular'' = None"
  by (simp add: format_value.simps example_heap_def Let_def with_items_def str_nat.simps
      MAX_COLLECTION_ITEMS_def)

text \<open>
  C4, amended. For a value whose identity is in the seen set, \<open>format_value\<close> at a depth
  above 0 returns the record of \<open>type\<close> and the \<open>value\<close> "<circular reference>", without
  a \<open>circular\<close> field, and \<open>ObjectInspector.inspect\<close> returns that record with
  \<open>circular: true\<close> and leaves its set as it is. Both results are fixed by the type name
  alone: neither call looks into the value.
\<close>

theorem reentered_value_is_a_leaf:
  "(obj \<in> seen \<and> current_depth > 0
      \<longrightarrow> format_value h obj max_depth current_depth seen
            = [(''type'', JStr (type_name_of (h obj))), (''value'', JStr ''<circular reference>'')])
   \<and> (obj \<in> seen
      \<longrightarrow> inspect h lib_inspect self obj depth seen
            = ([(''type'', JStr (type_name_of (h obj))), (''value'', JStr ''<circular reference>''),
                (''circular'', JBool True)], seen))"
  by (simp add: format_value.simps [of h obj] inspect.simps [of h lib_inspect self obj] Let_def)

theorem reentered_value_is_a_leaf_witness:
  "format_value example_heap 0 2 1 {0}
     = [(''type'', JStr ''list''), (''value'', JStr ''<circular reference>'')]
   \<and> inspect example_heap (\<lambda>a. []) example_inspector 0 1 {0}
     = ([(''type'', JStr ''list''), (''value'', JStr ''<circular reference>''),
         (''circular'', JBool True)], {0})"
  using reentered_value_is_a_leaf
    [where obj = 0 and seen = "{0}" and current_depth = 1 and h = example_heap and max_depth = 2
       and lib_inspect = "\<lambda>a. []" and self = example_inspector and depth = 1]
  by (simp add: example_heap_def)

subsection \<open>The depth bound\<close>





subsection \<open>The records of collections\<close>

lemma map_of_append_key:
  "map_of (xs @ ys) k = (case map_of xs k of Some v \<Rightarrow> Some v | None \<Rightarrow> map_of ys k)"
  by (simp add: map_add_def split: option.splits)

text \<open>
  C6, as the claim states it, fails for \<open>format_value\<close>: the record of a collection has
  no \<open>length\<close> field; the count stands in the text of \<open>value\<close> only. So does the
  empty list \<open>xs\<close> among the locals of a frame.
\<close>

theorem format_value_has_no_length_field:
  "format_value example_heap 4 2 0 {}
     = [(''type'', JStr ''list''), (''value'', JStr ''<list with 0 items>''), (''items'', JList [])]
   \<and> map_of (format_value example_heap 4 2 0 {}) ''length'' = None
   \<and> format_variables example_heap (f_locals g_frame) 1
     = [(''xs'', JObj [(''type'', JStr ''list''), (''value'', JStr ''<list with 0 items>''),
                       (''items'', JList [])])]"
  by (simp add: format_value.simps example_heap_def Let_def with_items_def str_nat.simps
      MAX_COLLECTION_ITEMS_def format_variables_def g_frame_def is_dunder_def)

text \<open>
  C6, amended. For a list, tuple, dict or set of \<open>n\<close> entries formatted within the depth
  budget: the record of \<open>format_value\<close> has exactly the fields \<open>type\<close>, \<open>value\<close> and
  \<open>items\<close>, with the count in the text of \<open>value\<close> and no \<open>length\<close> field; the record
  of \<open>ObjectInspector.inspect\<close> carries \<open>length\<close> equal to \<open>n\<close> together with
  \<open>items\<close>, and for \<open>n = 0\<close> the items are empty.
\<close>

theorem collection_records:
  "entries_count (h obj) = Some n
     \<longrightarrow> ((current_depth < max_depth \<and> \<not> (obj \<in> seen \<and> current_depth > 0)
            \<longrightarrow> map fst (format_value h obj max_depth current_depth seen)
                  = [''type'', ''value'', ''items'']
                \<and> map_of (format_value h obj max_depth current_depth seen) ''length'' = None
                \<and> (\<exists>unit. map_of (format_value h obj max_depth current_depth seen) ''value''
                       = Some (JStr (with_items (type_name_of (h obj)) n unit))))
          \<and> (obj \<notin> seen \<and> depth \<le> self_max_depth self
            \<longrightarrow> map_of (fst (inspect h lib_inspect self obj depth seen)) ''length''
                  = Some (JInt (int n))
                \<and> (\<exists>items. map_of (fst (inspect h lib_inspect self obj depth seen)) ''items''
                       = Some items
                     \<and> (n = 0 \<longrightarrow> items = JList [] \<or> items = JObj []))))"
proof (intro impI conjI)
  assume n: "entries_count (h obj) = Some n"
  {
    assume a: "current_depth < max_depth \<and> \<not> (obj \<in> seen \<and> current_depth > 0)"
    show "map fst (format_value h obj max_depth current_depth seen) = [''type'', ''value'', ''items'']"
      using n a by (subst format_value.simps) (auto simp: Let_def split: pyobj.splits)
    show "map_of (format_value h obj max_depth current_depth seen) ''length'' = None"
      using n a by (subst format_value.simps) (auto simp: Let_def split: pyobj.splits)
    show "\<exists>unit. map_of (format_value h obj max_depth current_depth seen) ''value''
             = Some (JStr (with_items (type_name_of (h obj)) n unit))"
      using n a by (subst format_value.simps) (auto simp: Let_def split: pyobj.splits)
  }
  {
    assume a: "obj \<notin> seen \<and> depth \<le> self_max_depth self"
    show "map_of (fst (inspect h lib_inspect self obj depth seen)) ''length'' = Some (JInt (int n))"
      using n a
      by (subst inspect.simps)
         (auto simp: Let_def fst_discard inspect_sequence_def inspect_set_def inspect_dict_def
            map_of_append_key split: pyobj.splits prod.splits)
    show "\<exists>items. map_of (fst (inspect h lib_inspect self obj depth seen)) ''items'' = Some items
                     \<and> (n = 0 \<longrightarrow> items = JList [] \<or> items = JObj [])"
      using n a
      by (subst inspect.simps)
         (auto simp: Let_def fst_discard inspect_sequence_def inspect_set_def inspect_dict_def
            map_of_append_key split: pyobj.splits prod.splits)
  }
qed

theorem collection_records_witness:
  "map fst (format_value example_heap 4 2 0 {}) = [''type'', ''value'', ''items'']
   \<and> map_of (fst (inspect example_heap (\<lambda>a. []) example_inspector 4 0 {})) ''length'' = Some (JInt 0)
   \<and> map_of (fst (inspect example_heap (\<lambda>a. []) example_inspector 1 0 {})) ''length'' = Some (JInt 1)"
  using collection_records
    [where h = example_heap and obj = 4 and n = 0 and max_depth = 2 and current_depth = 0
       and seen = "{}" and lib_inspect = "\<lambda>a. []" and self = example_inspector and depth = 0]
    collection_records
    [where h = example_heap and obj = 1 and n = 1 and max_depth = 2 and current_depth = 0
       and seen = "{}" and lib_inspect = "\<lambda>a. []" and self = example_inspector and depth = 0]
  by (simp add: example_heap_def example_inspector_def)

end
